theory Spec2Isabelle
  imports Complex_Main "HOL-Library.Word"
begin

section \<open>Figma screens export tool: a shallow embedding of \<^verbatim>\<open>src/index.js\<close>\<close>

subsection \<open>JavaScript strings\<close>

text \<open>
  A JavaScript string is a sequence of UTF-16 code units, and a regular expression
  without the \<^verbatim>\<open>u\<close> flag matches one code unit at a time. A string is therefore a
  list of 16-bit words; a character outside ASCII is one code unit (or two, for a
  surrogate pair). \<open>js\<close> embeds an ASCII literal.
\<close>

type_synonym js_char = "16 word"
type_synonym js_string = "js_char list"

definition js :: "string \<Rightarrow> js_string" where
  "js s = map of_char s"

subsection \<open>\<^verbatim>\<open>sanitizeFileName\<close> (lines 131--133)\<close>

text \<open>
  The character class of the regular expression \<^verbatim>\<open>/[/\\?%*:|"<>]/g\<close>, in the order
  in which it is written: slash, backslash (code 0x5C), question mark, percent, star,
  colon, bar, double quote (code 0x22), less-than, greater-than.
\<close>

definition reserved :: "js_char list" where
  "reserved = map of_char
     [CHR ''/'', CHR 0x5C, CHR ''?'', CHR ''%'', CHR ''*'',
      CHR '':'', CHR ''|'', CHR 0x22, CHR ''<'', CHR ''>'']"

text \<open>
  \<^verbatim>\<open>String.prototype.replace\<close> with a global regular expression that is a single
  character class, and a replacement string without \<^verbatim>\<open>$\<close> patterns: the string is
  scanned from the left, each code unit in the class is a match of length one and is
  replaced by the replacement string, every other code unit is copied.
\<close>

fun replace_class :: "js_char list \<Rightarrow> js_string \<Rightarrow> js_string \<Rightarrow> js_string" where
  "replace_class cls rep [] = []"
| "replace_class cls rep (c # cs) =
     (if c \<in> set cls then rep @ replace_class cls rep cs
      else c # replace_class cls rep cs)"

definition sanitizeFileName :: "js_string \<Rightarrow> js_string" where
  "sanitizeFileName nm = replace_class reserved (js ''-'') nm"

subsection \<open>The document tree and the configuration\<close>

text \<open>
  A bounding box and the configured target dimensions are both plain objects of which
  the program reads \<^verbatim>\<open>width\<close> and \<^verbatim>\<open>height\<close> only. The numbers come from
  JSON, so they are finite doubles; on those, \<^verbatim>\<open>===\<close> is equality of the values
  (the two zeros are equal), which is equality of the reals they denote.
\<close>

record dimensions =
  width :: real
  height :: real

text \<open>
  A node of the document. The fields \<^verbatim>\<open>absoluteBoundingBox\<close>,
  \<^verbatim>\<open>backgroundColor\<close>, \<^verbatim>\<open>effects\<close>, \<^verbatim>\<open>constraints\<close> and \<^verbatim>\<open>children\<close> may be
  absent (\<^verbatim>\<open>undefined\<close> or \<^verbatim>\<open>null\<close>, both falsy): \<open>None\<close>. The styling metadata is
  opaque to the program: a type parameter. The selectors carry the prefix
  \<open>node_\<close>, and the fields of the projected record the prefix \<open>screen_\<close>, because
  the source uses the same field names for both (and \<open>id\<close> is a HOL constant).
\<close>

datatype 'v node = Node
  (node_id: js_string)
  (node_name: js_string)
  (node_type: js_string)
  (node_absoluteBoundingBox: "dimensions option")
  (node_backgroundColor: "'v option")
  (node_effects: "'v option")
  (node_constraints: "'v option")
  (node_children: "'v node list option")

text \<open>The object literal \<^verbatim>\<open>screenData\<close> of lines 80--89.\<close>

record 'v screenData =
  screen_id :: js_string
  screen_name :: js_string
  screen_type :: js_string
  screen_absoluteBoundingBox :: "dimensions option"
  screen_backgroundColor :: "'v option"
  screen_effects :: "'v option"
  screen_constraints :: "'v option"

text \<open>
  The global constant \<^verbatim>\<open>CONFIG\<close> (lines 34--49), passed explicitly.
  \<^verbatim>\<open>targetDimensions\<close> is an object or \<^verbatim>\<open>null\<close>.
\<close>

record config =
  outputDir :: js_string
  imageFormats :: "js_string list"
  includeDimensions :: bool
  apiDelay :: nat
  targetDimensions :: "dimensions option"

subsection \<open>\<^verbatim>\<open>extractScreenNodes\<close> (lines 75--109)\<close>

definition screenData_of :: "'v node \<Rightarrow> 'v screenData" where
  "screenData_of node =
     \<lparr> screen_id = node_id node,
       screen_name = node_name node,
       screen_type = node_type node,
       screen_absoluteBoundingBox = node_absoluteBoundingBox node,
       screen_backgroundColor = node_backgroundColor node,
       screen_effects = node_effects node,
       screen_constraints = node_constraints node \<rparr>"

lemma size_node_children:
  "node_children node = Some cs \<Longrightarrow> c \<in> set cs \<Longrightarrow> size c < size node"
proof -
  assume ch: "node_children node = Some cs" and c: "c \<in> set cs"
  from c have "size c \<le> size_list size cs"
    by (rule size_list_estimation') simp
  with ch show ?thesis
    by (cases node) simp
qed

text \<open>
  The inner function \<^verbatim>\<open>traverse\<close>. The array \<^verbatim>\<open>screenNodes\<close> that it pushes to
  is passed in and returned; \<^verbatim>\<open>push\<close> appends at the end, \<^verbatim>\<open>forEach\<close> visits the
  children from the first to the last.
\<close>

function traverse :: "config \<Rightarrow> 'v node \<Rightarrow> 'v screenData list \<Rightarrow> 'v screenData list" where
  "traverse CONFIG node screenNodes =
     (let screenNodes =
        (if node_type node = js ''FRAME'' then
           (let screenData = screenData_of node in
            if targetDimensions CONFIG \<noteq> None \<and> node_absoluteBoundingBox node \<noteq> None then
              (let w = width (the (node_absoluteBoundingBox node));
                   h = height (the (node_absoluteBoundingBox node)) in
               if w = width (the (targetDimensions CONFIG))
                  \<and> h = height (the (targetDimensions CONFIG))
               then screenNodes @ [screenData] else screenNodes)
            else if targetDimensions CONFIG = None then screenNodes @ [screenData]
            else screenNodes)
         else screenNodes)
      in case node_children node of
           None \<Rightarrow> screenNodes
         | Some children \<Rightarrow> fold (traverse CONFIG) children screenNodes)"
  by pat_completeness auto
termination
  by (relation "measure (\<lambda>(CONFIG, node, screenNodes). size node)")
     (auto dest: size_node_children)

declare traverse.simps [simp del]

definition extractScreenNodes :: "config \<Rightarrow> 'v node list \<Rightarrow> 'v screenData list" where
  "extractScreenNodes CONFIG nodes = fold (traverse CONFIG) nodes []"

subsection \<open>The specification of the tree filter\<close>

text \<open>
  The words of the specification, to compare the code with: the nodes of a tree in
  depth-first pre-order (a node, then the subtrees of its children from the first to
  the last), and the predicate that selects a node.
\<close>

function spec_preorder :: "'v node \<Rightarrow> 'v node list" where
  "spec_preorder node =
     node # (case node_children node of
               None \<Rightarrow> []
             | Some children \<Rightarrow> concat (map spec_preorder children))"
  by pat_completeness auto
termination
  by (relation "measure size") (auto dest: size_node_children)

declare spec_preorder.simps [simp del]

definition spec_document_order :: "'v node list \<Rightarrow> 'v node list" where
  "spec_document_order nodes = concat (map spec_preorder nodes)"

definition spec_selected :: "config \<Rightarrow> 'v node \<Rightarrow> bool" where
  "spec_selected CONFIG node \<longleftrightarrow>
     node_type node = js ''FRAME'' \<and>
     (case targetDimensions CONFIG of
        None \<Rightarrow> True
      | Some target \<Rightarrow>
          (case node_absoluteBoundingBox node of
             None \<Rightarrow> False
           | Some box \<Rightarrow> width box = width target \<and> height box = height target))"

subsection \<open>\<^verbatim>\<open>getUniqueFilePath\<close> (lines 136--144)\<close>

text \<open>
  The counter is a JavaScript number that starts at 1 and is incremented by 1: a
  natural number (the increment is exact below \<open>2 ^ 53\<close>, far beyond the number of
  entries a directory can hold). In a template literal such a number is written in
  decimal, without sign, leading zeros or exponent.
\<close>

definition digit :: "nat \<Rightarrow> js_char" where
  "digit d = of_nat (48 + d)"

fun decimal :: "nat \<Rightarrow> js_string" where
  "decimal n = (if n < 10 then [digit n] else decimal (n div 10) @ [digit (n mod 10)])"

declare decimal.simps [simp del]

text \<open>
  \<^verbatim>\<open>fs.existsSync\<close> is a parameter: the predicate that tells which paths exist while
  the function runs (it only reads the file system). The \<^verbatim>\<open>while\<close> loop runs as long
  as the candidate exists, so it need not end: \<open>None\<close> stands for a loop that runs
  forever. The loop state is \<^verbatim>\<open>filePath\<close> and \<^verbatim>\<open>counter\<close>.
\<close>

partial_function (option) getUniqueFilePath_while ::
  "(js_string \<Rightarrow> bool) \<Rightarrow> js_string \<Rightarrow> js_string \<Rightarrow> js_string \<Rightarrow> nat \<Rightarrow> js_string option" where
  "getUniqueFilePath_while existsSync basePath extension filePath counter =
     (if existsSync filePath
      then getUniqueFilePath_while existsSync basePath extension
             (basePath @ js ''-'' @ decimal counter @ js ''.'' @ extension) (counter + 1)
      else Some filePath)"

declare getUniqueFilePath_while.simps [code]

definition getUniqueFilePath ::
  "(js_string \<Rightarrow> bool) \<Rightarrow> js_string \<Rightarrow> js_string \<Rightarrow> js_string option" where
  "getUniqueFilePath existsSync basePath extension =
     getUniqueFilePath_while existsSync basePath extension (basePath @ js ''.'' @ extension) 1"

subsection \<open>The world outside the program\<close>

text \<open>
  The program talks to the network (\<^verbatim>\<open>axios.get\<close>), to the file system
  (\<^verbatim>\<open>fs.existsSync\<close>, \<^verbatim>\<open>fs.writeFileSync\<close>), to the console and to the timer.
  Each such call is recorded as an event, in the order in which the calls are made:
  the two kinds of request with the URL, the write with the path, the waiting time of
  \<^verbatim>\<open>delay\<close>, and one constructor for each console line, named after the line and
  carrying the values printed in it.
\<close>

datatype event =
    AxiosGet js_string                           \<comment> \<open>line 154, the render API\<close>
  | AxiosGetArraybuffer js_string                \<comment> \<open>line 120, the image bytes\<close>
  | WriteFileSync js_string                      \<comment> \<open>line 121\<close>
  | Delay nat                                    \<comment> \<open>lines 228 and 236\<close>
  | Error_skipping js_string                     \<comment> \<open>line 116: file path\<close>
  | Log_downloaded js_string                     \<comment> \<open>line 122: file path\<close>
  | Error_downloading js_string js_string        \<comment> \<open>line 125: file path, message\<close>
  | Error_getting_image_URL js_string            \<comment> \<open>line 164: message\<close>
  | Log_exporting_screen js_string               \<comment> \<open>line 199: node name\<close>
  | Log_dimensions real real                     \<comment> \<open>line 203: width, height\<close>
  | Log_downloaded_as js_string js_string        \<comment> \<open>line 221: format, file path\<close>
  | Log_failed_to_download js_string             \<comment> \<open>line 232: node name\<close>

text \<open>
  The state of the world: the file system and the remote side are left abstract (type
  parameters), next to the events so far.
\<close>

record ('f, 'r) world =
  filesystem :: 'f
  remote :: 'r
  events :: "event list"

definition emit :: "event \<Rightarrow> ('f, 'r) world \<Rightarrow> ('f, 'r) world" where
  "emit e w = w\<lparr> events := events w @ [e] \<rparr>"

text \<open>
  The library functions, as parameters. A request changes the remote state and either
  throws (\<open>Inl\<close> with the message of the error) or answers: the render API with the
  object \<^verbatim>\<open>response.data.images\<close>, a map from node identifiers to URLs in which a
  \<^verbatim>\<open>null\<close> or missing entry is \<open>None\<close>; the download with the bytes. A write may
  throw (\<open>Some\<close> message) and leaves a file system. \<^verbatim>\<open>path.join\<close> and the printing
  of a dimension are pure. \<^verbatim>\<open>FIGMA_FILE_ID\<close> comes from the environment variables.
\<close>

type_synonym bytes = "8 word list"

record ('f, 'r) env =
  FIGMA_FILE_ID :: js_string
  axios_get_images :: "'r \<Rightarrow> js_string \<Rightarrow> (js_string + (js_string \<rightharpoonup> js_string)) \<times> 'r"
  axios_get_arraybuffer :: "'r \<Rightarrow> js_string \<Rightarrow> (js_string + bytes) \<times> 'r"
  fs_existsSync :: "'f \<Rightarrow> js_string \<Rightarrow> bool"
  fs_writeFileSync :: "'f \<Rightarrow> js_string \<Rightarrow> bytes \<Rightarrow> js_string option \<times> 'f"
  path_join :: "js_string \<Rightarrow> js_string \<Rightarrow> js_string"
  number_toString :: "real \<Rightarrow> js_string"

definition FIGMA_API_URL :: js_string where
  "FIGMA_API_URL = js ''https://api.figma.com/v1''"

text \<open>
  A URL held by the program is a string, \<^verbatim>\<open>null\<close> or \<^verbatim>\<open>undefined\<close>. The tests
  \<^verbatim>\<open>if (url)\<close> and \<^verbatim>\<open>if (!url)\<close> take the empty string for absent as well.
\<close>

definition truthy :: "js_string option \<Rightarrow> bool" where
  "truthy url \<longleftrightarrow> url \<noteq> None \<and> url \<noteq> Some []"

subsection \<open>\<^verbatim>\<open>getImageUrl\<close> (lines 152--167)\<close>

definition getImageUrl ::
  "('f, 'r) env \<Rightarrow> js_string \<Rightarrow> js_string \<Rightarrow> ('f, 'r) world
     \<Rightarrow> js_string option \<times> ('f, 'r) world" where
  "getImageUrl env nodeId format w =
     (let request = FIGMA_API_URL @ js ''/images/'' @ FIGMA_FILE_ID env
                      @ js ''?ids='' @ nodeId @ js ''&format='' @ format;
          w = emit (AxiosGet request) w;
          (response, r) = axios_get_images env (remote w) request;
          w = w\<lparr> remote := r \<rparr>
      in case response of
           Inr images \<Rightarrow> (images nodeId, w)
         | Inl message \<Rightarrow> (None, emit (Error_getting_image_URL message) w))"

subsection \<open>\<^verbatim>\<open>downloadImage\<close> (lines 114--128)\<close>

text \<open>
  The block under \<^verbatim>\<open>try\<close>: it ends by \<^verbatim>\<open>return true\<close> (\<open>Inr True\<close>) or by an
  error thrown by the request or by the write (\<open>Inl\<close> with the message).
\<close>

definition downloadImage_try ::
  "('f, 'r) env \<Rightarrow> js_string \<Rightarrow> js_string \<Rightarrow> ('f, 'r) world
     \<Rightarrow> (js_string + bool) \<times> ('f, 'r) world" where
  "downloadImage_try env url filePath w =
     (let w = emit (AxiosGetArraybuffer url) w;
          (response, r) = axios_get_arraybuffer env (remote w) url;
          w = w\<lparr> remote := r \<rparr>
      in case response of
           Inl error \<Rightarrow> (Inl error, w)
         | Inr data \<Rightarrow>
             (let w = emit (WriteFileSync filePath) w;
                  (failure, f) = fs_writeFileSync env (filesystem w) filePath data;
                  w = w\<lparr> filesystem := f \<rparr>
              in case failure of
                   Some error \<Rightarrow> (Inl error, w)
                 | None \<Rightarrow> (Inr True, emit (Log_downloaded filePath) w)))"

text \<open>
  The function ends by returning a boolean (\<open>Inr\<close>) or by an error that reaches its
  caller (\<open>Inl\<close>). The \<^verbatim>\<open>catch\<close> clause takes every error of the block.
\<close>

definition downloadImage ::
  "('f, 'r) env \<Rightarrow> js_string option \<Rightarrow> js_string \<Rightarrow> ('f, 'r) world
     \<Rightarrow> (js_string + bool) \<times> ('f, 'r) world" where
  "downloadImage env url filePath w =
     (if \<not> truthy url then (Inr False, emit (Error_skipping filePath) w)
      else case downloadImage_try env (the url) filePath w of
             (Inr result, w) \<Rightarrow> (Inr result, w)
           | (Inl error, w) \<Rightarrow> (Inr False, emit (Error_downloading filePath error) w))"

subsection \<open>The export loop of \<^verbatim>\<open>main\<close> (lines 196--237)\<close>

text \<open>
  The inner loop over \<^verbatim>\<open>CONFIG.imageFormats\<close> (lines 209--229), on the formats that
  are left. It returns the final value of \<^verbatim>\<open>downloadedSuccessfully\<close>; \<open>None\<close> when
  \<open>getUniqueFilePath\<close> runs forever, \<open>Inl\<close> when an error leaves \<open>downloadImage\<close>.
\<close>

fun main_formats ::
  "('f, 'r) env \<Rightarrow> config \<Rightarrow> 'v screenData \<Rightarrow> js_string \<Rightarrow> js_string list
     \<Rightarrow> ('f, 'r) world \<Rightarrow> ((js_string + bool) \<times> ('f, 'r) world) option" where
  "main_formats env CONFIG node baseFileName [] w = Some (Inr False, w)"
| "main_formats env CONFIG node baseFileName (format # formats) w =
     (let (url, w) = getImageUrl env (screen_id node) format w in
      if truthy url then
        (let fileName = js ''screen-'' @ baseFileName;
             fileName =
               (if includeDimensions CONFIG \<and> screen_absoluteBoundingBox node \<noteq> None
                then fileName @ js ''-''
                       @ number_toString env (width (the (screen_absoluteBoundingBox node)))
                       @ js ''x''
                       @ number_toString env (height (the (screen_absoluteBoundingBox node)))
                else fileName)
         in case getUniqueFilePath (fs_existsSync env (filesystem w))
                   (path_join env (outputDir CONFIG) fileName) format of
              None \<Rightarrow> None
            | Some filePath \<Rightarrow>
                (case downloadImage env url filePath w of
                   (Inl error, w) \<Rightarrow> Some (Inl error, w)
                 | (Inr success, w) \<Rightarrow>
                     if success then Some (Inr True, emit (Log_downloaded_as format filePath) w)
                     else main_formats env CONFIG node baseFileName formats (emit (Delay 100) w)))
      else main_formats env CONFIG node baseFileName formats (emit (Delay 100) w))"

text \<open>The body of the outer loop, for one record (lines 198--236).\<close>

definition main_screen ::
  "('f, 'r) env \<Rightarrow> config \<Rightarrow> 'v screenData \<Rightarrow> ('f, 'r) world
     \<Rightarrow> ((js_string + unit) \<times> ('f, 'r) world) option" where
  "main_screen env CONFIG node w =
     (let baseFileName = sanitizeFileName (screen_name node);
          w = emit (Log_exporting_screen (screen_name node)) w;
          w = (case screen_absoluteBoundingBox node of
                 Some box \<Rightarrow> emit (Log_dimensions (width box) (height box)) w
               | None \<Rightarrow> w)
      in case main_formats env CONFIG node baseFileName (imageFormats CONFIG) w of
           None \<Rightarrow> None
         | Some (Inl error, w) \<Rightarrow> Some (Inl error, w)
         | Some (Inr downloadedSuccessfully, w) \<Rightarrow>
             (let w = (if \<not> downloadedSuccessfully
                       then emit (Log_failed_to_download (screen_name node)) w else w)
              in Some (Inr (), emit (Delay (apiDelay CONFIG)) w)))"

text \<open>The outer loop over \<^verbatim>\<open>screenNodes\<close> (line 197), on the records that are left.\<close>

fun main_screens ::
  "('f, 'r) env \<Rightarrow> config \<Rightarrow> 'v screenData list \<Rightarrow> ('f, 'r) world
     \<Rightarrow> ((js_string + unit) \<times> ('f, 'r) world) option" where
  "main_screens env CONFIG [] w = Some (Inr (), w)"
| "main_screens env CONFIG (node # screenNodes) w =
     (case main_screen env CONFIG node w of
        None \<Rightarrow> None
      | Some (Inl error, w) \<Rightarrow> Some (Inl error, w)
      | Some (Inr u, w) \<Rightarrow> main_screens env CONFIG screenNodes w)"

text \<open>
  The events that \<open>downloadImage\<close> gives rise to: its request, its write and its three
  console lines.
\<close>

fun downloadImage_event :: "event \<Rightarrow> bool" where
  "downloadImage_event (AxiosGetArraybuffer url) = True"
| "downloadImage_event (WriteFileSync filePath) = True"
| "downloadImage_event (Error_skipping filePath) = True"
| "downloadImage_event (Log_downloaded filePath) = True"
| "downloadImage_event (Error_downloading filePath message) = True"
| "downloadImage_event e = False"

text \<open>
  The calls of \<open>getImageUrl\<close> that the loop over the formats makes for a node, one
  after the other from the world \<open>w\<close>, as long as no call returns a URL: the first
  call is made in \<open>w\<close>, and each further call in the world that the one before has
  left, after the waiting time of line 228. \<open>no_url_run\<close> holds when every one of
  these calls returns no URL.
\<close>

fun no_url_run ::
  "('f, 'r) env \<Rightarrow> js_string \<Rightarrow> js_string list \<Rightarrow> ('f, 'r) world \<Rightarrow> bool" where
  "no_url_run env nodeId [] w = True"
| "no_url_run env nodeId (format # formats) w =
     (let (url, w) = getImageUrl env nodeId format w in
      \<not> truthy url \<and> no_url_run env nodeId formats (emit (Delay 100) w))"

subsection \<open>Concrete values\<close>

text \<open>
  The configuration as the source file sets it, and a small document: a frame of the
  target size with a nested frame of the target size, and a frame without a bounding
  box.
\<close>

definition source_CONFIG :: config where
  "source_CONFIG =
     \<lparr> outputDir = js ''./exported-projects/planteria'',
       imageFormats = [js ''png''],
       includeDimensions = False,
       apiDelay = 200,
       targetDimensions = Some \<lparr> width = 375, height = 812 \<rparr> \<rparr>"

definition frame :: "string \<Rightarrow> string \<Rightarrow> dimensions option \<Rightarrow> unit node list option \<Rightarrow> unit node" where
  "frame i n box cs = Node (js i) (js n) (js ''FRAME'') box None None None cs"

definition demo_child :: "unit node" where
  "demo_child = frame ''1:2'' ''Login/Inner'' (Some \<lparr> width = 375, height = 812 \<rparr>) None"

definition demo_parent :: "unit node" where
  "demo_parent = frame ''1:1'' ''Login'' (Some \<lparr> width = 375, height = 812 \<rparr>) (Some [demo_child])"

definition demo_nobox :: "unit node" where
  "demo_nobox = frame ''1:3'' ''Empty'' None (Some [])"

text \<open>
  A world to run the program in. The file system is the list of the paths that exist,
  and a write fails on the path \<^verbatim>\<open>/readonly\<close>. The remote state counts the requests:
  the first request to the render API fails, the later ones answer with a URL for the
  node \<^verbatim>\<open>1:2\<close> only; the bytes are served at that URL only.
\<close>

definition demo_env :: "(js_string list, nat) env" where
  "demo_env =
     \<lparr> FIGMA_FILE_ID = js ''FILE'',
       axios_get_images = (\<lambda>r request.
         (if r = 0 then Inl (js ''Network Error'')
          else Inr (\<lambda>nodeId. if nodeId = js ''1:2'' then Some (js ''https://img/2'') else None),
          r + 1)),
       axios_get_arraybuffer = (\<lambda>r url.
         (if url = js ''https://img/2'' then Inr [0x89, 0x50] else Inl (js ''404''), r + 1)),
       fs_existsSync = (\<lambda>f filePath. filePath \<in> set f),
       fs_writeFileSync = (\<lambda>f filePath data.
         if filePath = js ''/readonly'' then (Some (js ''EACCES''), f) else (None, filePath # f)),
       path_join = (\<lambda>dir file. dir @ js ''/'' @ file),
       number_toString = (\<lambda>x. decimal (nat \<lfloor>x\<rfloor>)) \<rparr>"

definition demo_world :: "(js_string list, nat) world" where
  "demo_world = \<lparr> filesystem = [], remote = 0, events = [] \<rparr>"

section \<open>The tree filter\<close>

lemma fold_traverse_acc:
  assumes "\<And>c acc. c \<in> set cs \<Longrightarrow> traverse CONFIG c acc = acc @ f c"
  shows "fold (traverse CONFIG) cs acc = acc @ concat (map f cs)"
  using assms by (induction cs arbitrary: acc) simp_all

lemma traverse_acc:
  "traverse CONFIG node acc =
     acc @ map screenData_of (filter (spec_selected CONFIG) (spec_preorder node))"
proof (induction CONFIG node acc rule: traverse.induct)
  case (1 CONFIG node screenNodes)
  let ?f = "\<lambda>n. map screenData_of (filter (spec_selected CONFIG) (spec_preorder n))"
  show ?case
  proof (cases "node_children node")
    case None
    then show ?thesis
      by (subst traverse.simps, subst spec_preorder.simps)
         (auto simp: spec_selected_def Let_def split: option.splits)
  next
    case (Some cs)
    have "fold (traverse CONFIG) cs acc = acc @ concat (map ?f cs)" for acc
      by (rule fold_traverse_acc) (rule "1.IH" [OF refl Some])
    with Some show ?thesis
      by (subst traverse.simps, subst spec_preorder.simps)
         (auto simp: spec_selected_def Let_def map_concat filter_concat comp_def split: option.splits)
  qed
qed

lemma extractScreenNodes_filter: "extractScreenNodes CONFIG nodes =
     map screenData_of (filter (spec_selected CONFIG) (spec_document_order nodes))"
  unfolding extractScreenNodes_def spec_document_order_def
  by (simp add: fold_traverse_acc [where f = "\<lambda>n. map screenData_of (filter (spec_selected CONFIG) (spec_preorder n))"] traverse_acc map_concat filter_concat comp_def)

lemma spec_preorder_self: "node \<in> set (spec_preorder node)"
  by (subst spec_preorder.simps) simp

lemma spec_preorder_child:
  "node_children node = Some cs \<Longrightarrow> c \<in> set cs \<Longrightarrow> d \<in> set (spec_preorder c)
   \<Longrightarrow> d \<in> set (spec_preorder node)"
  by (subst spec_preorder.simps) auto

lemma in_spec_preorder:
  "d \<in> set (spec_preorder r) \<longleftrightarrow>
     d = r \<or> (\<exists>cs c. node_children r = Some cs \<and> c \<in> set cs \<and> d \<in> set (spec_preorder c))"
proof (cases "node_children r")
  case None
  then show ?thesis by (subst spec_preorder.simps) simp
next
  case (Some cs)
  then show ?thesis by (subst spec_preorder.simps) auto
qed

lemma spec_preorder_trans:
  "node \<in> set (spec_preorder r) \<Longrightarrow> d \<in> set (spec_preorder node)
   \<Longrightarrow> d \<in> set (spec_preorder r)"
proof (induction r rule: spec_preorder.induct)
  case (1 r)
  from "1.prems"(1) consider "node = r"
    | cs c where "node_children r = Some cs" "c \<in> set cs" "node \<in> set (spec_preorder c)"
    using in_spec_preorder [of node r] by blast
  then show ?case
  proof cases
    case 1
    with "1.prems"(2) show ?thesis by simp
  next
    case 2
    from "1.IH" [OF 2(1,2,3) "1.prems"(2)] 2(1,2) show ?thesis
      by (rule spec_preorder_child [rotated 2])
  qed
qed

lemma spec_document_order_descendant:
  "node \<in> set (spec_document_order nodes) \<Longrightarrow> d \<in> set (spec_preorder node)
   \<Longrightarrow> d \<in> set (spec_document_order nodes)"
  by (auto simp: spec_document_order_def intro: spec_preorder_trans)

lemma selected_in_output:
  "node \<in> set (spec_document_order nodes) \<Longrightarrow> spec_selected CONFIG node
   \<Longrightarrow> screenData_of node \<in> set (extractScreenNodes CONFIG nodes)"
  by (simp add: extractScreenNodes_filter)

lemma screenData_of_selected:
  assumes "spec_selected CONFIG node"
  shows "screen_type (screenData_of node) = js ''FRAME''"
    and "targetDimensions CONFIG = Some target \<Longrightarrow>
         \<exists>box. screen_absoluteBoundingBox (screenData_of node) = Some box
               \<and> width box = width target \<and> height box = height target"
  using assms by (auto simp: spec_selected_def screenData_of_def split: option.splits)

text \<open>
  C1. Every node of the input, at any depth, that has the type \<^verbatim>\<open>FRAME\<close> and, when
  target dimensions are configured, a bounding box of exactly that width and height,
  has its record in the result of \<open>extractScreenNodes\<close>. When such a node is nested
  (at any depth below a child) in another such node, the records of both are in the
  result.
\<close>

theorem extractScreenNodes_complete:
  "(node \<in> set (spec_document_order nodes) \<and> spec_selected CONFIG node
      \<longrightarrow> screenData_of node \<in> set (extractScreenNodes CONFIG nodes))
   \<and> (parent \<in> set (spec_document_order nodes) \<and> spec_selected CONFIG parent
      \<and> node_children parent = Some cs \<and> c \<in> set cs \<and> child \<in> set (spec_preorder c)
      \<and> spec_selected CONFIG child
      \<longrightarrow> screenData_of parent \<in> set (extractScreenNodes CONFIG nodes)
        \<and> screenData_of child \<in> set (extractScreenNodes CONFIG nodes))"
proof (intro conjI impI; elim conjE)
  assume "node \<in> set (spec_document_order nodes)" "spec_selected CONFIG node"
  then show "screenData_of node \<in> set (extractScreenNodes CONFIG nodes)"
    by (rule selected_in_output)
next
  assume p: "parent \<in> set (spec_document_order nodes)" "spec_selected CONFIG parent"
    and c: "node_children parent = Some cs" "c \<in> set cs" "child \<in> set (spec_preorder c)"
      "spec_selected CONFIG child"
  from p show "screenData_of parent \<in> set (extractScreenNodes CONFIG nodes)"
    by (rule selected_in_output)
  from c(1,2,3) have "child \<in> set (spec_preorder parent)"
    by (rule spec_preorder_child)
  with p(1) have "child \<in> set (spec_document_order nodes)"
    by (rule spec_document_order_descendant)
  then show "screenData_of child \<in> set (extractScreenNodes CONFIG nodes)"
    using c(4) by (rule selected_in_output)
qed

lemmas demo_defs = source_CONFIG_def frame_def demo_child_def demo_parent_def demo_nobox_def js_def

lemma spec_preorder_leaf: "node_children node = None \<Longrightarrow> spec_preorder node = [node]"
  by (subst spec_preorder.simps) simp
lemma spec_preorder_demo_child: "spec_preorder demo_child = [demo_child]"
  by (simp add: spec_preorder_leaf demo_child_def frame_def)

lemma node_children_demo_parent: "node_children demo_parent = Some [demo_child]"
  by (simp add: demo_parent_def frame_def)

lemma spec_document_order_demo: "spec_document_order [demo_parent] = [demo_parent, demo_child]"
  unfolding spec_document_order_def
  by (simp, subst spec_preorder.simps)
     (simp add: node_children_demo_parent spec_preorder_demo_child)

theorem extractScreenNodes_complete_witness:
  "demo_parent \<in> set (spec_document_order [demo_parent])
   \<and> spec_selected source_CONFIG demo_parent
   \<and> node_children demo_parent = Some [demo_child]
   \<and> demo_child \<in> set [demo_child]
   \<and> demo_child \<in> set (spec_preorder demo_child)
   \<and> spec_selected source_CONFIG demo_child
   \<and> screenData_of demo_parent \<in> set (extractScreenNodes source_CONFIG [demo_parent])
   \<and> screenData_of demo_child \<in> set (extractScreenNodes source_CONFIG [demo_parent])
   \<and> length (extractScreenNodes source_CONFIG [demo_parent]) = 2"
proof -
  have 1: "demo_parent \<in> set (spec_document_order [demo_parent])"
    by (simp add: spec_document_order_demo)
  have 2: "spec_selected source_CONFIG demo_parent"
    by (simp add: spec_selected_def demo_defs)
  have 3: "node_children demo_parent = Some [demo_child]"
    by (simp add: demo_parent_def frame_def)
  have 4: "demo_child \<in> set (spec_preorder demo_child)"
    by (simp add: spec_preorder_demo_child)
  have 5: "spec_selected source_CONFIG demo_child"
    by (simp add: spec_selected_def demo_defs)
  have 6: "length (extractScreenNodes source_CONFIG [demo_parent]) = 2"
    by (simp add: extractScreenNodes_def traverse.simps demo_defs)
  from extractScreenNodes_complete [of demo_parent "[demo_parent]" source_CONFIG demo_parent
      "[demo_child]" demo_child demo_child] 1 2 3 4 5 6
  show ?thesis by simp
qed

text \<open>
  C2. Every record that \<open>extractScreenNodes\<close> returns has the type \<^verbatim>\<open>FRAME\<close>; when
  target dimensions are configured its bounding box is present, with exactly the
  configured width and height; and it is the record of a selected node of the input,
  so that no other node appears in the result.
\<close>

theorem extractScreenNodes_sound:
  "screen \<in> set (extractScreenNodes CONFIG nodes) \<Longrightarrow>
     screen_type screen = js ''FRAME''
     \<and> (\<forall>target. targetDimensions CONFIG = Some target \<longrightarrow>
          (\<exists>box. screen_absoluteBoundingBox screen = Some box
                \<and> width box = width target \<and> height box = height target))
     \<and> (\<exists>node \<in> set (spec_document_order nodes).
          screen = screenData_of node \<and> spec_selected CONFIG node)"
proof -
  assume "screen \<in> set (extractScreenNodes CONFIG nodes)"
  then obtain node where node: "node \<in> set (spec_document_order nodes)"
      "spec_selected CONFIG node" "screen = screenData_of node"
    by (auto simp: extractScreenNodes_filter)
  from node(2) have "screen_type (screenData_of node) = js ''FRAME''"
    by (rule screenData_of_selected)
  moreover from node(2) have "\<forall>target. targetDimensions CONFIG = Some target \<longrightarrow>
      (\<exists>box. screen_absoluteBoundingBox (screenData_of node) = Some box
            \<and> width box = width target \<and> height box = height target)"
    by (blast dest: screenData_of_selected(2))
  ultimately show ?thesis
    using node by blast
qed

lemma extractScreenNodes_demo:
  "extractScreenNodes source_CONFIG [demo_nobox, demo_parent]
     = [screenData_of demo_parent, screenData_of demo_child]"
  by (simp add: extractScreenNodes_def traverse.simps screenData_of_def demo_defs)

theorem extractScreenNodes_sound_witness:
  "screenData_of demo_child \<in> set (extractScreenNodes source_CONFIG [demo_nobox, demo_parent])
   \<and> screen_type (screenData_of demo_child) = js ''FRAME''
   \<and> targetDimensions source_CONFIG = Some \<lparr> width = 375, height = 812 \<rparr>
   \<and> screen_absoluteBoundingBox (screenData_of demo_child) = Some \<lparr> width = 375, height = 812 \<rparr>"
proof -
  have 1: "screenData_of demo_child
      \<in> set (extractScreenNodes source_CONFIG [demo_nobox, demo_parent])"
    by (simp add: extractScreenNodes_demo)
  have 2: "targetDimensions source_CONFIG = Some \<lparr> width = 375, height = 812 \<rparr>"
    by (simp add: source_CONFIG_def)
  have 3: "screen_absoluteBoundingBox (screenData_of demo_child)
      = Some \<lparr> width = 375, height = 812 \<rparr>"
    by (simp add: screenData_of_def demo_defs)
  from extractScreenNodes_sound [OF 1] 1 2 3 show ?thesis by simp
qed

text \<open>
  C3. When target dimensions are configured, the record of a node without a bounding
  box is not in the result, whatever the type of the node.
\<close>

theorem extractScreenNodes_no_box:
  "targetDimensions CONFIG \<noteq> None \<Longrightarrow> node_absoluteBoundingBox node = None \<Longrightarrow>
     screenData_of node \<notin> set (extractScreenNodes CONFIG nodes)"
proof
  assume target: "targetDimensions CONFIG \<noteq> None"
    and box: "node_absoluteBoundingBox node = None"
    and "screenData_of node \<in> set (extractScreenNodes CONFIG nodes)"
  then obtain n where "spec_selected CONFIG n" "screenData_of node = screenData_of n"
    by (auto simp: extractScreenNodes_filter)
  with target obtain b where "screen_absoluteBoundingBox (screenData_of node) = Some b"
    by (auto dest: screenData_of_selected(2))
  with box show False
    by (simp add: screenData_of_def)
qed

theorem extractScreenNodes_no_box_witness:
  "targetDimensions source_CONFIG \<noteq> None
   \<and> node_absoluteBoundingBox demo_nobox = None
   \<and> node_type demo_nobox = js ''FRAME''
   \<and> demo_nobox \<in> set (spec_document_order [demo_nobox, demo_parent])
   \<and> screenData_of demo_nobox \<notin> set (extractScreenNodes source_CONFIG [demo_nobox, demo_parent])"
proof -
  have 1: "targetDimensions source_CONFIG \<noteq> None"
    by (simp add: source_CONFIG_def)
  have 2: "node_absoluteBoundingBox demo_nobox = None"
    by (simp add: demo_nobox_def frame_def)
  have 3: "node_type demo_nobox = js ''FRAME''"
    by (simp add: demo_nobox_def frame_def)
  have 4: "demo_nobox \<in> set (spec_document_order [demo_nobox, demo_parent])"
    by (simp add: spec_document_order_def spec_preorder_self)
  from extractScreenNodes_no_box [OF 1 2, of "[demo_nobox, demo_parent]"] 1 2 3 4
  show ?thesis by simp
qed

text \<open>
  C4. The result of \<open>extractScreenNodes\<close> lists the records of the selected nodes in
  the depth-first pre-order of the whole input, each selected occurrence once, without
  any reordering.
\<close>

theorem extractScreenNodes_document_order:
  "extractScreenNodes CONFIG nodes =
     map screenData_of (filter (spec_selected CONFIG) (spec_document_order nodes))"
  by (rule extractScreenNodes_filter)

section \<open>The sanitizer\<close>

lemma replace_class_map:
  "replace_class cls [h] s = map (\<lambda>c. if c \<in> set cls then h else c) s"
  by (induction s) simp_all

lemma sanitizeFileName_map:
  "sanitizeFileName s = map (\<lambda>c. if c \<in> set reserved then of_char CHR ''-'' else c) s"
  by (simp add: sanitizeFileName_def js_def replace_class_map)

lemma hyphen_not_reserved: "of_char CHR ''-'' \<notin> set reserved"
  by (simp add: reserved_def)

lemma reserved_codes:
  "set reserved = {0x2F, 0x5C, 0x3F, 0x25, 0x2A, 0x3A, 0x7C, 0x22, 0x3C, 0x3E}"
  by (simp add: reserved_def)

lemma sanitizeFileName_example: "sanitizeFileName (js ''A/B:C'') = js ''A-B-C''"
  by (simp add: sanitizeFileName_def js_def reserved_def)

text \<open>
  C5. \<open>sanitizeFileName\<close> keeps the length of its argument; at every position, a code
  unit that is one of the ten characters of the class is replaced by a hyphen, and any
  other code unit, inside ASCII or not, is left as it is. The ten characters are the
  slash, the backslash, the question mark, the percent sign, the star, the colon, the
  bar, the double quote and the two angle brackets. On \<^verbatim>\<open>A/B:C\<close> the result is
  \<^verbatim>\<open>A-B-C\<close>.
\<close>

theorem sanitizeFileName_positions:
  "length (sanitizeFileName s) = length s
   \<and> (\<forall>i < length s.
        sanitizeFileName s ! i = (if s ! i \<in> set reserved then of_char CHR ''-'' else s ! i))
   \<and> set reserved = {0x2F, 0x5C, 0x3F, 0x25, 0x2A, 0x3A, 0x7C, 0x22, 0x3C, 0x3E}
   \<and> sanitizeFileName (js ''A/B:C'') = js ''A-B-C''"
  by (simp add: sanitizeFileName_map reserved_codes [symmetric] sanitizeFileName_example [unfolded sanitizeFileName_map])

theorem sanitizeFileName_positions_witness:
  "(1::nat) < length [0x41, 0x5C, 0xE9, 0x263A, 0xD83D, 0xDE00, 0x22, 0x2D :: js_char]
   \<and> sanitizeFileName [0x41, 0x5C, 0xE9, 0x263A, 0xD83D, 0xDE00, 0x22, 0x2D] ! 1 = 0x2D
   \<and> (3::nat) < length [0x41, 0x5C, 0xE9, 0x263A, 0xD83D, 0xDE00, 0x22, 0x2D :: js_char]
   \<and> sanitizeFileName [0x41, 0x5C, 0xE9, 0x263A, 0xD83D, 0xDE00, 0x22, 0x2D] ! 3 = 0x263A
   \<and> length (sanitizeFileName [0x41, 0x5C, 0xE9, 0x263A, 0xD83D, 0xDE00, 0x22, 0x2D]) = 8"
proof -
  let ?s = "[0x41, 0x5C, 0xE9, 0x263A, 0xD83D, 0xDE00, 0x22, 0x2D] :: js_string"
  note inst = sanitizeFileName_positions [of ?s]
  from inst have len: "length (sanitizeFileName ?s) = length ?s"
    by (rule conjunct1)
  from inst have pos: "\<forall>i < length ?s. sanitizeFileName ?s ! i
        = (if ?s ! i \<in> set reserved then of_char CHR ''-'' else ?s ! i)"
    by (elim conjE)
  have 1: "(1::nat) < length ?s" and 3: "(3::nat) < length ?s"
    by simp_all
  from pos [rule_format, OF 1] have "sanitizeFileName ?s ! 1
      = (if ?s ! 1 \<in> set reserved then of_char CHR ''-'' else ?s ! 1)"
    .
  then have p1: "sanitizeFileName ?s ! 1 = 0x2D"
    by (simp add: reserved_def)
  from pos [rule_format, OF 3] have "sanitizeFileName ?s ! 3
      = (if ?s ! 3 \<in> set reserved then of_char CHR ''-'' else ?s ! 3)"
    .
  then have p3: "sanitizeFileName ?s ! 3 = 0x263A"
    by (simp add: reserved_def)
  from len p1 p3 show ?thesis by simp
qed

text \<open>
  C6. \<open>sanitizeFileName\<close> is a function of its argument alone. It returns a name
  without any of the ten characters unchanged, and applying it twice gives the same
  as applying it once.
\<close>

theorem sanitizeFileName_idempotent:
  "(set s \<inter> set reserved = {} \<longrightarrow> sanitizeFileName s = s)
   \<and> sanitizeFileName (sanitizeFileName s) = sanitizeFileName s"
proof
  show "set s \<inter> set reserved = {} \<longrightarrow> sanitizeFileName s = s"
    unfolding sanitizeFileName_map by (induction s) auto
  show "sanitizeFileName (sanitizeFileName s) = sanitizeFileName s"
    unfolding sanitizeFileName_map using hyphen_not_reserved by (induction s) auto
qed

theorem sanitizeFileName_idempotent_witness:
  "set (js ''Login'') \<inter> set reserved = {}
   \<and> sanitizeFileName (js ''Login'') = js ''Login''
   \<and> sanitizeFileName (sanitizeFileName (js ''A/B:C'')) = sanitizeFileName (js ''A/B:C'')"
proof -
  have 1: "set (js ''Login'') \<inter> set reserved = {}"
    by (simp add: js_def reserved_def)
  from sanitizeFileName_idempotent [of "js ''Login''"] 1
    sanitizeFileName_idempotent [of "js ''A/B:C''"]
  show ?thesis by simp
qed

section \<open>Unique paths\<close>

lemma unat_digit: "d < 10 \<Longrightarrow> unat (digit d) = 48 + d"
  unfolding digit_def by (simp only: unat_of_nat) simp

lemma decimal_value: "foldl (\<lambda>a c. 10 * a + (unat c - 48)) 0 (decimal n) = n"
proof (induction n rule: decimal.induct)
  case (1 n)
  show ?case
  proof (cases "n < 10")
    case True
    then show ?thesis by (subst decimal.simps) (simp add: unat_digit)
  next
    case False
    with 1 show ?thesis by (subst decimal.simps) (simp add: unat_digit)
  qed
qed

lemma decimal_inj: "decimal m = decimal n \<Longrightarrow> m = n"
  by (metis decimal_value)

lemma numbered_inj:
  "basePath @ js ''-'' @ decimal m @ js ''.'' @ extension
     = basePath @ js ''-'' @ decimal n @ js ''.'' @ extension \<Longrightarrow> m = n"
proof -
  assume "basePath @ js ''-'' @ decimal m @ js ''.'' @ extension
     = basePath @ js ''-'' @ decimal n @ js ''.'' @ extension"
  then have "decimal m @ (js ''.'' @ extension) = decimal n @ (js ''.'' @ extension)"
    by simp
  then have "decimal m = decimal n"
    by (simp only: append_same_eq)
  then show ?thesis by (rule decimal_inj)
qed

lemma getUniqueFilePath_while_run:
  assumes "\<forall>i. j \<le> i \<and> i < k \<longrightarrow>
             existsSync (basePath @ js ''-'' @ decimal i @ js ''.'' @ extension)"
    and "\<not> existsSync (basePath @ js ''-'' @ decimal k @ js ''.'' @ extension)"
    and "j \<le> k"
  shows "getUniqueFilePath_while existsSync basePath extension
           (basePath @ js ''-'' @ decimal j @ js ''.'' @ extension) (j + 1)
         = Some (basePath @ js ''-'' @ decimal k @ js ''.'' @ extension)"
  using assms
proof (induction "k - j" arbitrary: j)
  case 0
  then have "j = k" by simp
  with "0.prems"(2) show ?case
    by (subst getUniqueFilePath_while.simps) simp
next
  case (Suc d)
  then have "j < k" by simp
  with Suc.prems(1) have ex: "existsSync (basePath @ js ''-'' @ decimal j @ js ''.'' @ extension)"
    by simp
  have "getUniqueFilePath_while existsSync basePath extension
           (basePath @ js ''-'' @ decimal (j + 1) @ js ''.'' @ extension) (j + 1 + 1)
         = Some (basePath @ js ''-'' @ decimal k @ js ''.'' @ extension)"
    using Suc.hyps(2) Suc.prems \<open>j < k\<close> by (intro Suc.hyps(1)) auto
  with ex show ?case
    by (subst getUniqueFilePath_while.simps) simp
qed

lemma getUniqueFilePath_free:
  "\<not> existsSync (basePath @ js ''.'' @ extension) \<Longrightarrow>
     getUniqueFilePath existsSync basePath extension = Some (basePath @ js ''.'' @ extension)"
  unfolding getUniqueFilePath_def by (subst getUniqueFilePath_while.simps) simp

lemma getUniqueFilePath_numbered:
  assumes "existsSync (basePath @ js ''.'' @ extension)"
    and "1 \<le> k"
    and "\<not> existsSync (basePath @ js ''-'' @ decimal k @ js ''.'' @ extension)"
    and "\<forall>j. 1 \<le> j \<and> j < k \<longrightarrow>
           existsSync (basePath @ js ''-'' @ decimal j @ js ''.'' @ extension)"
  shows "getUniqueFilePath existsSync basePath extension
           = Some (basePath @ js ''-'' @ decimal k @ js ''.'' @ extension)"
proof -
  have "getUniqueFilePath existsSync basePath extension
      = getUniqueFilePath_while existsSync basePath extension
          (basePath @ js ''-'' @ decimal 1 @ js ''.'' @ extension) (1 + 1)"
    unfolding getUniqueFilePath_def using assms(1)
    by (subst getUniqueFilePath_while.simps) simp
  also have "\<dots> = Some (basePath @ js ''-'' @ decimal k @ js ''.'' @ extension)"
    using assms(4,3,2) by (rule getUniqueFilePath_while_run)
  finally show ?thesis .
qed

text \<open>
  C7. When \<^verbatim>\<open><base>.<ext>\<close> does not exist, \<open>getUniqueFilePath\<close> returns it.
  When it exists, and \<open>k \<ge> 1\<close> is the smallest number for which
  \<^verbatim>\<open><base>-k.<ext>\<close> does not exist (\<open>k\<close> written in decimal), the function returns
  \<^verbatim>\<open><base>-k.<ext>\<close>.
\<close>

theorem getUniqueFilePath_smallest:
  "(\<not> existsSync (basePath @ js ''.'' @ extension) \<longrightarrow>
      getUniqueFilePath existsSync basePath extension
        = Some (basePath @ js ''.'' @ extension))
   \<and> (existsSync (basePath @ js ''.'' @ extension) \<and> 1 \<le> k
      \<and> \<not> existsSync (basePath @ js ''-'' @ decimal k @ js ''.'' @ extension)
      \<and> (\<forall>j. 1 \<le> j \<and> j < k \<longrightarrow>
            existsSync (basePath @ js ''-'' @ decimal j @ js ''.'' @ extension))
      \<longrightarrow> getUniqueFilePath existsSync basePath extension
            = Some (basePath @ js ''-'' @ decimal k @ js ''.'' @ extension))"
proof (intro conjI impI; (elim conjE)?)
  assume "\<not> existsSync (basePath @ js ''.'' @ extension)"
  then show "getUniqueFilePath existsSync basePath extension
      = Some (basePath @ js ''.'' @ extension)"
    by (rule getUniqueFilePath_free)
next
  assume "existsSync (basePath @ js ''.'' @ extension)" "1 \<le> k"
    "\<not> existsSync (basePath @ js ''-'' @ decimal k @ js ''.'' @ extension)"
    "\<forall>j. 1 \<le> j \<and> j < k \<longrightarrow>
       existsSync (basePath @ js ''-'' @ decimal j @ js ''.'' @ extension)"
  then show "getUniqueFilePath existsSync basePath extension
      = Some (basePath @ js ''-'' @ decimal k @ js ''.'' @ extension)"
    by (rule getUniqueFilePath_numbered)
qed

lemma decimal_1: "decimal 1 = js ''1''"
  by (simp add: decimal.simps digit_def js_def)

lemma decimal_2: "decimal 2 = js ''2''"
  by (simp add: decimal.simps digit_def js_def)

theorem getUniqueFilePath_smallest_witness:
  "getUniqueFilePath (\<lambda>p. p \<in> {js ''out/screen-Login.png''})
       (js ''out/screen-Login'') (js ''png'')
     = Some (js ''out/screen-Login-1.png'')
   \<and> getUniqueFilePath (\<lambda>p. p \<in> {js ''out/screen-Login.png'', js ''out/screen-Login-1.png''})
       (js ''out/screen-Login'') (js ''png'')
     = Some (js ''out/screen-Login-2.png'')
   \<and> getUniqueFilePath (\<lambda>p. p \<in> {js ''out/screen-Login-1.png''})
       (js ''out/screen-Login'') (js ''png'')
     = Some (js ''out/screen-Login.png'')"
proof -
  let ?b = "js ''out/screen-Login''" and ?e = "js ''png''"
  let ?one = "\<lambda>p. p \<in> {js ''out/screen-Login.png''}"
  let ?two = "\<lambda>p. p \<in> {js ''out/screen-Login.png'', js ''out/screen-Login-1.png''}"
  let ?gap = "\<lambda>p. p \<in> {js ''out/screen-Login-1.png''}"
  have plain: "?b @ js ''.'' @ ?e = js ''out/screen-Login.png''"
    by (simp add: js_def)
  have first: "?b @ js ''-'' @ decimal 1 @ js ''.'' @ ?e = js ''out/screen-Login-1.png''"
    by (simp only: decimal_1) (simp add: js_def)
  have second: "?b @ js ''-'' @ decimal 2 @ js ''.'' @ ?e = js ''out/screen-Login-2.png''"
    by (simp only: decimal_2) (simp add: js_def)
  have differ: "js ''out/screen-Login-1.png'' \<noteq> js ''out/screen-Login.png''"
    "js ''out/screen-Login-2.png'' \<noteq> js ''out/screen-Login.png''"
    "js ''out/screen-Login-2.png'' \<noteq> js ''out/screen-Login-1.png''"
    by (simp_all add: js_def)
  have one: "?one (js ''out/screen-Login.png'')" "\<not> ?one (js ''out/screen-Login-1.png'')"
    using differ by simp_all
  have two: "?two (js ''out/screen-Login.png'')" "\<not> ?two (js ''out/screen-Login-2.png'')"
    using differ by simp_all
  have gap: "\<not> ?gap (js ''out/screen-Login.png'')"
    using differ by simp
  have le: "(1::nat) \<le> 1" "(1::nat) \<le> 2"
    by simp_all
  have below_1: "\<forall>j. 1 \<le> j \<and> j < (1::nat) \<longrightarrow>
      ?one (?b @ js ''-'' @ decimal j @ js ''.'' @ ?e)"
    by simp
  have below_2: "\<forall>j. 1 \<le> j \<and> j < (2::nat) \<longrightarrow>
      ?two (?b @ js ''-'' @ decimal j @ js ''.'' @ ?e)"
  proof (intro allI impI)
    fix j :: nat
    assume "1 \<le> j \<and> j < 2"
    then have "j = 1" by simp
    then show "?two (?b @ js ''-'' @ decimal j @ js ''.'' @ ?e)"
      by (simp only: first) simp
  qed
  note r1 = getUniqueFilePath_smallest [of ?one ?b ?e 1, unfolded plain first,
      THEN conjunct2, THEN mp, OF conjI [OF one(1) conjI [OF le(1) conjI [OF one(2) below_1]]]]
  note r2 = getUniqueFilePath_smallest [of ?two ?b ?e 2, unfolded plain second,
      THEN conjunct2, THEN mp, OF conjI [OF two(1) conjI [OF le(2) conjI [OF two(2) below_2]]]]
  note r3 = getUniqueFilePath_smallest [of ?gap ?b ?e 0, unfolded plain,
      THEN conjunct1, THEN mp, OF gap]
  from r1 r2 r3 show ?thesis
    by (intro conjI)
qed

text \<open>
  C10. When only finitely many paths exist, the loop of \<open>getUniqueFilePath\<close> ends,
  and the path that is returned does not exist.
\<close>

theorem getUniqueFilePath_terminates:
  "finite {p. existsSync p} \<Longrightarrow>
     \<exists>filePath. getUniqueFilePath existsSync basePath extension = Some filePath
               \<and> \<not> existsSync filePath"
proof (cases "existsSync (basePath @ js ''.'' @ extension)")
  case False
  then show ?thesis
    by (simp add: getUniqueFilePath_free)
next
  case True
  assume fin: "finite {p. existsSync p}"
  let ?c = "\<lambda>k. basePath @ js ''-'' @ decimal k @ js ''.'' @ extension"
  have "inj_on ?c {1..}"
    by (rule inj_onI) (rule numbered_inj)
  moreover have "infinite {1::nat ..}"
    by (simp add: infinite_Ici)
  ultimately have "infinite (?c ` {1..})"
    by (simp add: finite_image_iff)
  with fin have "\<not> ?c ` {1..} \<subseteq> {p. existsSync p}"
    by (blast dest: finite_subset)
  then obtain k0 where "1 \<le> k0 \<and> \<not> existsSync (?c k0)"
    by auto
  then have least: "1 \<le> (LEAST k. 1 \<le> k \<and> \<not> existsSync (?c k))
      \<and> \<not> existsSync (?c (LEAST k. 1 \<le> k \<and> \<not> existsSync (?c k)))"
    by (rule LeastI)
  define k where "k = (LEAST k. 1 \<le> k \<and> \<not> existsSync (?c k))"
  have "\<forall>j. 1 \<le> j \<and> j < k \<longrightarrow> existsSync (?c j)"
  proof (intro allI impI, rule ccontr)
    fix j
    assume "1 \<le> j \<and> j < k" and "\<not> existsSync (?c j)"
    then have "j < k" and "1 \<le> j \<and> \<not> existsSync (?c j)"
      by simp_all
    then show False
      unfolding k_def by (auto dest: not_less_Least)
  qed
  moreover from least have "1 \<le> k" and free: "\<not> existsSync (?c k)"
    unfolding k_def by simp_all
  ultimately have "getUniqueFilePath existsSync basePath extension = Some (?c k)"
    using True by (intro getUniqueFilePath_numbered)
  with free show ?thesis
    by (intro exI [of _ "?c k"] conjI)
qed

theorem getUniqueFilePath_terminates_witness:
  "finite {p. p \<in> set [js ''a.svg'', js ''a-1.svg'', js ''a-2.svg'', js ''a-4.svg'']}
   \<and> getUniqueFilePath (\<lambda>p. p \<in> set [js ''a.svg'', js ''a-1.svg'', js ''a-2.svg'', js ''a-4.svg''])
        (js ''a'') (js ''svg'') = Some (js ''a-3.svg'')"
proof -
  let ?ex = "\<lambda>p. p \<in> set [js ''a.svg'', js ''a-1.svg'', js ''a-2.svg'', js ''a-4.svg'']"
  have fin: "finite {p. ?ex p}"
    by simp
  have run: "getUniqueFilePath ?ex (js ''a'') (js ''svg'') = Some (js ''a-3.svg'')"
    by (simp add: getUniqueFilePath_def getUniqueFilePath_while.simps decimal.simps
        digit_def js_def)
  from getUniqueFilePath_terminates [OF fin, of "js ''a''" "js ''svg''"] fin run
  show ?thesis by simp
qed

section \<open>The fetcher\<close>

lemma downloadImage_absent:
  "\<not> truthy url \<Longrightarrow>
     downloadImage env url filePath w = (Inr False, emit (Error_skipping filePath) w)"
  by (simp add: downloadImage_def)

lemma downloadImage_request_fails:
  assumes "truthy url"
    and "axios_get_arraybuffer env (remote w) (the url) = (Inl message, r)"
  shows "downloadImage env url filePath w =
     (Inr False,
      emit (Error_downloading filePath message)
        ((emit (AxiosGetArraybuffer (the url)) w)\<lparr> remote := r \<rparr>))"
  using assms by (simp add: downloadImage_def downloadImage_try_def emit_def)

lemma downloadImage_write_fails:
  assumes "truthy url"
    and "axios_get_arraybuffer env (remote w) (the url) = (Inr data, r)"
    and "fs_writeFileSync env (filesystem w) filePath data = (Some message, f)"
  shows "downloadImage env url filePath w =
     (Inr False,
      emit (Error_downloading filePath message)
        ((emit (WriteFileSync filePath) ((emit (AxiosGetArraybuffer (the url)) w)\<lparr> remote := r \<rparr>))
           \<lparr> filesystem := f \<rparr>))"
  using assms by (simp add: downloadImage_def downloadImage_try_def emit_def)

lemma downloadImage_written:
  assumes "truthy url"
    and "axios_get_arraybuffer env (remote w) (the url) = (Inr data, r)"
    and "fs_writeFileSync env (filesystem w) filePath data = (None, f)"
  shows "downloadImage env url filePath w =
     (Inr True,
      emit (Log_downloaded filePath)
        ((emit (WriteFileSync filePath) ((emit (AxiosGetArraybuffer (the url)) w)\<lparr> remote := r \<rparr>))
           \<lparr> filesystem := f \<rparr>))"
  using assms by (simp add: downloadImage_def downloadImage_try_def emit_def)

lemma downloadImage_cases:
  obtains (absent) "\<not> truthy url"
  | (request_fails) message r where "truthy url"
      "axios_get_arraybuffer env (remote w) (the url) = (Inl message, r)"
  | (write_fails) data r message f where "truthy url"
      "axios_get_arraybuffer env (remote w) (the url) = (Inr data, r)"
      "fs_writeFileSync env (filesystem w) filePath data = (Some message, f)"
  | (written) data r f where "truthy url"
      "axios_get_arraybuffer env (remote w) (the url) = (Inr data, r)"
      "fs_writeFileSync env (filesystem w) filePath data = (None, f)"
proof (cases "truthy url")
  case False
  then show ?thesis by (rule absent)
next
  case True
  obtain response r where get: "axios_get_arraybuffer env (remote w) (the url) = (response, r)"
    by (cases "axios_get_arraybuffer env (remote w) (the url)")
  show ?thesis
  proof (cases response)
    case (Inl message)
    with True get show ?thesis by (intro request_fails) simp_all
  next
    case (Inr data)
    obtain failure f where wr: "fs_writeFileSync env (filesystem w) filePath data = (failure, f)"
      by (cases "fs_writeFileSync env (filesystem w) filePath data")
    show ?thesis
    proof (cases failure)
      case None
      with True get Inr wr show ?thesis by (intro written) simp_all
    next
      case (Some message)
      with True get Inr wr show ?thesis by (intro write_fails) simp_all
    qed
  qed
qed


lemma downloadImage_events:
  "\<exists>new. events (snd (downloadImage env url filePath w)) = events w @ new
         \<and> new \<noteq> [] \<and> (\<forall>e \<in> set new. downloadImage_event e)"
  by (rule downloadImage_cases [where url = url and env = env and w = w and filePath = filePath])
     (simp_all add: downloadImage_absent downloadImage_request_fails
        downloadImage_write_fails downloadImage_written emit_def)



section \<open>The export loop\<close>

lemma getImageUrl_effect:
  assumes "getImageUrl env nodeId format w = (url, w')"
  shows "filesystem w' = filesystem w"
    and "\<exists>new. events w' = events w @ new \<and> (\<forall>e \<in> set new. \<not> downloadImage_event e)"
  using assms
  by (auto simp: getImageUrl_def emit_def Let_def split: prod.splits sum.splits)

text \<open>
  \<open>getImageUrl\<close> reads the remote state only: what it returns, and the remote state
  that it leaves, do not depend on the events so far or on the file system.
\<close>

lemma getImageUrl_remote:
  assumes "remote w = remote v"
  shows "fst (getImageUrl env nodeId format w) = fst (getImageUrl env nodeId format v)"
    and "remote (snd (getImageUrl env nodeId format w))
           = remote (snd (getImageUrl env nodeId format v))"
  using assms
  by (auto simp: getImageUrl_def emit_def Let_def split: prod.splits sum.splits)

lemma no_url_run_remote:
  "remote w = remote v \<Longrightarrow>
     no_url_run env nodeId formats w = no_url_run env nodeId formats v"
proof (induction formats arbitrary: w v)
  case Nil
  show ?case by simp
next
  case (Cons format formats)
  obtain url w1 where w: "getImageUrl env nodeId format w = (url, w1)"
    by (cases "getImageUrl env nodeId format w")
  obtain url' v1 where v: "getImageUrl env nodeId format v = (url', v1)"
    by (cases "getImageUrl env nodeId format v")
  from getImageUrl_remote [OF Cons.prems, of env nodeId format] w v
  have same: "url = url'" "remote w1 = remote v1"
    by simp_all
  then have "remote (emit (Delay 100) w1) = remote (emit (Delay 100) v1)"
    by (simp add: emit_def)
  then have "no_url_run env nodeId formats (emit (Delay 100) w1)
      = no_url_run env nodeId formats (emit (Delay 100) v1)"
    by (rule Cons.IH)
  with w v same(1) show ?case
    by simp
qed

lemma main_formats_no_url:
  assumes "no_url_run env (screen_id node) formats w"
  shows "\<exists>w'. main_formats env CONFIG node baseFileName formats w = Some (Inr False, w')
           \<and> filesystem w' = filesystem w
           \<and> (\<exists>new. events w' = events w @ new \<and> (\<forall>e \<in> set new. \<not> downloadImage_event e))"
  using assms
proof (induction formats arbitrary: w)
  case Nil
  show ?case by simp
next
  case (Cons format formats)
  obtain url w1 where get: "getImageUrl env (screen_id node) format w = (url, w1)"
    by (cases "getImageUrl env (screen_id node) format w")
  with Cons.prems have no_url: "\<not> truthy url"
    and run: "no_url_run env (screen_id node) formats (emit (Delay 100) w1)"
    by simp_all
  from get obtain new1 where w1: "filesystem w1 = filesystem w" "events w1 = events w @ new1"
      "\<forall>e \<in> set new1. \<not> downloadImage_event e"
    by (blast dest: getImageUrl_effect)
  from Cons.IH [OF run]
  obtain w' new2 where rest:
      "main_formats env CONFIG node baseFileName formats (emit (Delay 100) w1) = Some (Inr False, w')"
      "filesystem w' = filesystem (emit (Delay 100) w1)"
      "events w' = events (emit (Delay 100) w1) @ new2"
      "\<forall>e \<in> set new2. \<not> downloadImage_event e"
    by blast
  from get no_url rest(1)
  have "main_formats env CONFIG node baseFileName (format # formats) w = Some (Inr False, w')"
    by simp
  moreover from rest(2) w1(1) have "filesystem w' = filesystem w"
    by (simp add: emit_def)
  moreover from rest(3) w1(2) have "events w' = events w @ (new1 @ Delay 100 # new2)"
    by (simp add: emit_def)
  moreover from w1(3) rest(4) have "\<forall>e \<in> set (new1 @ Delay 100 # new2). \<not> downloadImage_event e"
    by auto
  ultimately show ?case
    by blast
qed

lemma main_screen_no_url:
  assumes "no_url_run env (screen_id node) (imageFormats CONFIG) w"
  shows "\<exists>w' new. main_screen env CONFIG node w = Some (Inr (), w')
           \<and> filesystem w' = filesystem w
           \<and> events w' = events w @ new
                 @ [Log_failed_to_download (screen_name node), Delay (apiDelay CONFIG)]
           \<and> (\<forall>e \<in> set new. \<not> downloadImage_event e)"
proof -
  define w1 where "w1 = emit (Log_exporting_screen (screen_name node)) w"
  define w2 where "w2 = (case screen_absoluteBoundingBox node of
       Some box \<Rightarrow> emit (Log_dimensions (width box) (height box)) w1 | None \<Rightarrow> w1)"
  have w2: "filesystem w2 = filesystem w" "remote w2 = remote w"
    "\<exists>new. events w2 = events w @ new \<and> (\<forall>e \<in> set new. \<not> downloadImage_event e)"
    by (simp_all add: w1_def w2_def emit_def split: option.splits)
  then obtain new0 where new0: "events w2 = events w @ new0"
      "\<forall>e \<in> set new0. \<not> downloadImage_event e"
    by blast
  from assms w2(2) have "no_url_run env (screen_id node) (imageFormats CONFIG) w2"
    by (simp add: no_url_run_remote [of w2 w])
  from main_formats_no_url [OF this, of CONFIG "sanitizeFileName (screen_name node)"]
  obtain w3 new1 where w3:
      "main_formats env CONFIG node (sanitizeFileName (screen_name node)) (imageFormats CONFIG) w2
         = Some (Inr False, w3)"
      "filesystem w3 = filesystem w2" "events w3 = events w2 @ new1"
      "\<forall>e \<in> set new1. \<not> downloadImage_event e"
    by blast
  let ?w' = "emit (Delay (apiDelay CONFIG)) (emit (Log_failed_to_download (screen_name node)) w3)"
  from w3(1) [unfolded w2_def w1_def]
  have "main_screen env CONFIG node w = Some (Inr (), ?w')"
    by (simp add: main_screen_def Let_def)
  moreover from w3(2) w2(1) have "filesystem ?w' = filesystem w"
    by (simp add: emit_def)
  moreover from w3(3) new0(1) have "events ?w' = events w @ (new0 @ new1)
      @ [Log_failed_to_download (screen_name node), Delay (apiDelay CONFIG)]"
    by (simp add: emit_def)
  moreover from new0(2) w3(4) have "\<forall>e \<in> set (new0 @ new1). \<not> downloadImage_event e"
    by auto
  ultimately show ?thesis
    by blast
qed

text \<open>The loop on a single record is the body of the loop on that record.\<close>

lemma main_screens_single: "main_screens env CONFIG [node] w = main_screen env CONFIG node w"
  by (simp split: option.splits prod.splits sum.splits)

text \<open>
  C8. Take a record for which every call of \<open>getImageUrl\<close> that the run makes, one
  for each configured format, returns no URL (\<open>getImageUrl\<close> reads the remote state
  only, see \<open>getImageUrl_remote\<close>, so the lines printed before the first call do not
  change what the calls return). Processing the record ends normally. The events
  that it adds contain none of the events of \<open>downloadImage\<close>, which adds at least
  one of them whenever it is called (\<open>downloadImage_events\<close>); they end with the line
  that reports the record as failed and the waiting time between records. The file
  system is as before. The run goes on: when the record is the last one the run
  ends normally, a record that follows it is processed by the body of the loop from
  the world that the failed record has left, and so are all the records that follow.
\<close>

theorem main_screen_without_url:
  "no_url_run env (screen_id node) (imageFormats CONFIG) w \<Longrightarrow>
   \<exists>w' new. main_screen env CONFIG node w = Some (Inr (), w')
     \<and> filesystem w' = filesystem w
     \<and> events w' = events w @ new
           @ [Log_failed_to_download (screen_name node), Delay (apiDelay CONFIG)]
     \<and> (\<forall>e \<in> set new. \<not> downloadImage_event e)
     \<and> main_screens env CONFIG [node] w = Some (Inr (), w')
     \<and> main_screens env CONFIG [node, following] w = main_screen env CONFIG following w'
     \<and> main_screens env CONFIG (node # screenNodes) w = main_screens env CONFIG screenNodes w'"
proof -
  assume "no_url_run env (screen_id node) (imageFormats CONFIG) w"
  from main_screen_no_url [OF this]
  obtain w' new where run: "main_screen env CONFIG node w = Some (Inr (), w')"
      "filesystem w' = filesystem w"
      "events w' = events w @ new
         @ [Log_failed_to_download (screen_name node), Delay (apiDelay CONFIG)]"
      "\<forall>e \<in> set new. \<not> downloadImage_event e"
    by blast
  from run(1) have go_on: "main_screens env CONFIG (node # rest) w
      = main_screens env CONFIG rest w'" for rest
    by simp
  have "main_screens env CONFIG [node] w = Some (Inr (), w')"
    by (simp only: go_on main_screens.simps(1))
  moreover have "main_screens env CONFIG [node, following] w = main_screen env CONFIG following w'"
    by (simp only: go_on main_screens_single)
  ultimately show ?thesis
    using run go_on [of screenNodes] by blast
qed

text \<open>
  A run in the demo world: the first request to the render API fails, so the record
  of the node \<^verbatim>\<open>1:2\<close> fails although a later request for it is answered; the
  record that follows (the same node again) is then downloaded.
\<close>

lemmas demo_run_defs = main_screen_def getImageUrl_def downloadImage_def downloadImage_try_def
  getUniqueFilePath_def getUniqueFilePath_while.simps sanitizeFileName_def reserved_def
  emit_def demo_env_def demo_world_def source_CONFIG_def screenData_of_def demo_child_def
  frame_def truthy_def FIGMA_API_URL_def Let_def js_def

lemma demo_child_no_url_run:
  "no_url_run demo_env (screen_id (screenData_of demo_child)) (imageFormats source_CONFIG)
     demo_world"
  by (simp add: demo_run_defs)

lemma demo_child_url_later:
  "fst (getImageUrl demo_env (screen_id (screenData_of demo_child)) (js ''png'')
         (demo_world\<lparr> remote := 1 \<rparr>))
     = Some (js ''https://img/2'')"
  by (simp add: demo_run_defs)

lemma demo_child_failed:
  "main_screen demo_env source_CONFIG (screenData_of demo_child) demo_world
     = Some (Inr (),
         \<lparr> filesystem = [], remote = 1,
           events =
             [Log_exporting_screen (js ''Login/Inner''),
              Log_dimensions 375 812,
              AxiosGet (js ''https://api.figma.com/v1/images/FILE?ids=1:2&format=png''),
              Error_getting_image_URL (js ''Network Error''),
              Delay 100,
              Log_failed_to_download (js ''Login/Inner''),
              Delay 200] \<rparr>)"
  by (simp add: demo_run_defs)

lemma demo_child_downloaded:
  "main_screen demo_env source_CONFIG (screenData_of demo_child)
       \<lparr> filesystem = [], remote = 1,
         events =
           [Log_exporting_screen (js ''Login/Inner''),
            Log_dimensions 375 812,
            AxiosGet (js ''https://api.figma.com/v1/images/FILE?ids=1:2&format=png''),
            Error_getting_image_URL (js ''Network Error''),
            Delay 100,
            Log_failed_to_download (js ''Login/Inner''),
            Delay 200] \<rparr>
     = Some (Inr (),
         \<lparr> filesystem = [js ''./exported-projects/planteria/screen-Login-Inner.png''],
           remote = 3,
           events =
             [Log_exporting_screen (js ''Login/Inner''),
              Log_dimensions 375 812,
              AxiosGet (js ''https://api.figma.com/v1/images/FILE?ids=1:2&format=png''),
              Error_getting_image_URL (js ''Network Error''),
              Delay 100,
              Log_failed_to_download (js ''Login/Inner''),
              Delay 200,
              Log_exporting_screen (js ''Login/Inner''),
              Log_dimensions 375 812,
              AxiosGet (js ''https://api.figma.com/v1/images/FILE?ids=1:2&format=png''),
              AxiosGetArraybuffer (js ''https://img/2''),
              WriteFileSync (js ''./exported-projects/planteria/screen-Login-Inner.png''),
              Log_downloaded (js ''./exported-projects/planteria/screen-Login-Inner.png''),
              Log_downloaded_as (js ''png'')
                (js ''./exported-projects/planteria/screen-Login-Inner.png''),
              Delay 200] \<rparr>)"
  by (simp add: demo_run_defs)

theorem main_screen_without_url_witness:
  "no_url_run demo_env (screen_id (screenData_of demo_child)) (imageFormats source_CONFIG)
     demo_world
   \<and> fst (getImageUrl demo_env (screen_id (screenData_of demo_child)) (js ''png'')
           (demo_world\<lparr> remote := 1 \<rparr>))
     = Some (js ''https://img/2'')
   \<and> main_screens demo_env source_CONFIG [screenData_of demo_child] demo_world
     = Some (Inr (),
         \<lparr> filesystem = [], remote = 1,
           events =
             [Log_exporting_screen (js ''Login/Inner''),
              Log_dimensions 375 812,
              AxiosGet (js ''https://api.figma.com/v1/images/FILE?ids=1:2&format=png''),
              Error_getting_image_URL (js ''Network Error''),
              Delay 100,
              Log_failed_to_download (js ''Login/Inner''),
              Delay 200] \<rparr>)
   \<and> main_screens demo_env source_CONFIG [screenData_of demo_child, screenData_of demo_child]
       demo_world
     = Some (Inr (),
         \<lparr> filesystem = [js ''./exported-projects/planteria/screen-Login-Inner.png''],
           remote = 3,
           events =
             [Log_exporting_screen (js ''Login/Inner''),
              Log_dimensions 375 812,
              AxiosGet (js ''https://api.figma.com/v1/images/FILE?ids=1:2&format=png''),
              Error_getting_image_URL (js ''Network Error''),
              Delay 100,
              Log_failed_to_download (js ''Login/Inner''),
              Delay 200,
              Log_exporting_screen (js ''Login/Inner''),
              Log_dimensions 375 812,
              AxiosGet (js ''https://api.figma.com/v1/images/FILE?ids=1:2&format=png''),
              AxiosGetArraybuffer (js ''https://img/2''),
              WriteFileSync (js ''./exported-projects/planteria/screen-Login-Inner.png''),
              Log_downloaded (js ''./exported-projects/planteria/screen-Login-Inner.png''),
              Log_downloaded_as (js ''png'')
                (js ''./exported-projects/planteria/screen-Login-Inner.png''),
              Delay 200] \<rparr>)"
proof -
  from main_screen_without_url [OF demo_child_no_url_run,
      where following = "screenData_of demo_child" and screenNodes = "[]"]
  obtain w' where body:
      "main_screen demo_env source_CONFIG (screenData_of demo_child) demo_world
         = Some (Inr (), w')"
    and single:
      "main_screens demo_env source_CONFIG [screenData_of demo_child] demo_world
         = Some (Inr (), w')"
    and pair:
      "main_screens demo_env source_CONFIG [screenData_of demo_child, screenData_of demo_child]
         demo_world
       = main_screen demo_env source_CONFIG (screenData_of demo_child) w'"
    by blast
  from body have w': "w' =
         \<lparr> filesystem = [], remote = 1,
           events =
             [Log_exporting_screen (js ''Login/Inner''),
              Log_dimensions 375 812,
              AxiosGet (js ''https://api.figma.com/v1/images/FILE?ids=1:2&format=png''),
              Error_getting_image_URL (js ''Network Error''),
              Delay 100,
              Log_failed_to_download (js ''Login/Inner''),
              Delay 200] \<rparr>"
    by (simp only: demo_child_failed option.inject prod.inject)
  from single pair show ?thesis
    unfolding w'
    by (simp only: demo_child_downloaded demo_child_no_url_run demo_child_url_later)
qed

end
